theory Spec2Isabelle
  imports Main
begin

section \<open>Python values, errors and library functions\<close>

text \<open>
  The program is \<^verbatim>\<open>agent.py\<close>: \<^verbatim>\<open>build_sse_tools\<close> (with its nested
  \<^verbatim>\<open>make_call\<close>) and the chat loop of \<^verbatim>\<open>main\<close>.

  A decoded JSON document is the Python value that \<^verbatim>\<open>json.loads\<close> and
  \<^verbatim>\<open>Response.json()\<close> return. A \<^verbatim>\<open>dict\<close> is an association list in
  insertion order whose keys are distinct; a lookup is \<open>map_of\<close>. Numbers are
  integers: no operation of the program inspects a number. A character is a code
  point below 256.
\<close>

datatype json =
    JNull
  | JBool bool
  | JNum int
  | JStr string
  | JArr "json list"
  | JObj "(string \<times> json) list"

text \<open>
  The errors the program can meet. \<open>LibraryError\<close> is any other instance of
  \<^verbatim>\<open>Exception\<close> raised by library code (a connection error, a timeout, an import
  error, ...). \<open>Interrupt\<close> is an instance of \<^verbatim>\<open>BaseException\<close> outside
  \<^verbatim>\<open>Exception\<close> (\<^verbatim>\<open>KeyboardInterrupt\<close>, \<^verbatim>\<open>SystemExit\<close>,
  \<^verbatim>\<open>asyncio.CancelledError\<close>): a handler \<^verbatim>\<open>except Exception\<close> does not catch it.
\<close>

datatype py_exc =
    KeyError string
  | TypeError
  | AttributeError
  | NameError
  | JSONDecodeError
  | HTTPError nat
  | EOFError
  | LibraryError string
  | Interrupt string

fun is_Exception :: "py_exc \<Rightarrow> bool" where
  "is_Exception (Interrupt _) = False"
| "is_Exception _ = True"

text \<open>
  The keyword arguments of the call
  \<^verbatim>\<open>FunctionTool(function=make_call, name=tool_name, description=..., parameters=...)\<close>.
  \<open>func\<close> is the function object, known by its \<^verbatim>\<open>__name__\<close>: its code and its
  cells are those of every other \<^verbatim>\<open>make_call\<close> of the same call of
  \<^verbatim>\<open>build_sse_tools\<close>. A tool that the constructor returns is the record of what
  it was given.
\<close>

record function_tool =
  func :: string
  name :: string
  description :: json
  parameters :: json

text \<open>
  Library functions that are not code of this program, taken as parameters:
  \<^verbatim>\<open>json.loads\<close> on a text (\<open>None\<close>: it raises \<^verbatim>\<open>JSONDecodeError\<close>), the text an
  f-string gives for a value that is not a \<^verbatim>\<open>str\<close>, \<^verbatim>\<open>str(e)\<close> of an error, and
  the constructor of \<^verbatim>\<open>FunctionTool\<close> on its keyword arguments (\<open>None\<close>: it
  returns the tool; \<open>Some e\<close>: it raises \<open>e\<close>, as a class does that has no such
  parameters).
\<close>

record py_lib =
  json_loads :: "string \<Rightarrow> json option"
  format_value :: "json \<Rightarrow> string"
  str_exc :: "py_exc \<Rightarrow> string"
  function_tool_init :: "function_tool \<Rightarrow> py_exc option"

text \<open>\<^verbatim>\<open>t[key]\<close>: a missing key of a dict is a \<^verbatim>\<open>KeyError\<close>; a list, a string, a
  number, a boolean and \<^verbatim>\<open>None\<close> do not take a string subscript.\<close>

fun subscript :: "json \<Rightarrow> string \<Rightarrow> py_exc + json" where
  "subscript (JObj kvs) k = (case map_of kvs k of None \<Rightarrow> Inl (KeyError k) | Some v \<Rightarrow> Inr v)"
| "subscript _ k = Inl TypeError"

text \<open>\<^verbatim>\<open>d.get(key, default)\<close>: only a dict has the method.\<close>

fun dict_get :: "json \<Rightarrow> string \<Rightarrow> json \<Rightarrow> py_exc + json" where
  "dict_get (JObj kvs) k d = Inr (case map_of kvs k of None \<Rightarrow> d | Some v \<Rightarrow> v)"
| "dict_get _ k d = Inl AttributeError"

text \<open>\<^verbatim>\<open>for t in x\<close>: a list gives its items, a dict its keys, a string its
  characters; anything else is not iterable.\<close>

fun py_iter :: "json \<Rightarrow> py_exc + json list" where
  "py_iter (JArr xs) = Inr xs"
| "py_iter (JObj kvs) = Inr (map (\<lambda>kv. JStr (fst kv)) kvs)"
| "py_iter (JStr s) = Inr (map (\<lambda>c. JStr [c]) s)"
| "py_iter _ = Inl TypeError"

text \<open>A replacement field \<^verbatim>\<open>{v}\<close> of an f-string: a \<^verbatim>\<open>str\<close> stands for itself.\<close>

definition format_field :: "py_lib \<Rightarrow> json \<Rightarrow> string" where
  "format_field lib v = (case v of JStr s \<Rightarrow> s | _ \<Rightarrow> format_value lib v)"

section \<open>HTTP requests\<close>

datatype http_method = GET | POST

record http_request =
  meth :: http_method
  url :: string
  req_headers :: "(string \<times> string) list"
  json_payload :: "json option"
  timeout :: nat

text \<open>A response as the program reads it: the status, \<^verbatim>\<open>resp.text\<close>, and what
  \<^verbatim>\<open>resp.json()\<close> returns (\<open>None\<close>: it raises, the body is not JSON).\<close>

record http_response =
  status_code :: nat
  resp_text :: string
  resp_json :: "json option"

datatype http_outcome = Raises py_exc | Responds http_response

type_synonym network = "http_request \<Rightarrow> http_outcome"

text \<open>\<^verbatim>\<open>Response.raise_for_status()\<close> of the requests library raises
  \<^verbatim>\<open>HTTPError\<close> for a status from 400 to 599 and returns otherwise.\<close>

definition raise_for_status :: "http_response \<Rightarrow> py_exc option" where
  "raise_for_status resp =
     (if 400 \<le> status_code resp \<and> status_code resp < 600
      then Some (HTTPError (status_code resp)) else None)"

definition response_json :: "http_response \<Rightarrow> py_exc + json" where
  "response_json resp = (case resp_json resp of None \<Rightarrow> Inl JSONDecodeError | Some v \<Rightarrow> Inr v)"

section \<open>The tool adapter: \<^verbatim>\<open>build_sse_tools\<close>\<close>

text \<open>
  A Python closure captures variables, not values: \<^verbatim>\<open>make_call\<close> reads
  \<^verbatim>\<open>endpoint\<close>, \<^verbatim>\<open>headers\<close> and \<^verbatim>\<open>t\<close> from the cells of the enclosing call of
  \<^verbatim>\<open>build_sse_tools\<close> at the moment it is invoked. Every \<^verbatim>\<open>make_call\<close> made by
  one call shares these cells, and the \<^verbatim>\<open>for\<close> loop rebinds \<^verbatim>\<open>t\<close> at each
  iteration. The cells are the store of the model; \<open>cell_t\<close> is \<open>None\<close> while
  \<^verbatim>\<open>t\<close> is unbound.
\<close>

record cells =
  cell_endpoint :: string
  cell_headers :: "(string \<times> string) list"
  cell_t :: "json option"

text \<open>\<^verbatim>\<open>make_call(input_json)\<close>, with the requests it issues. The payload literal
  evaluates \<^verbatim>\<open>t["name"]\<close> first and \<^verbatim>\<open>json.loads(input_json)\<close> second.\<close>

definition call_request :: "cells \<Rightarrow> json \<Rightarrow> json \<Rightarrow> http_request" where
  "call_request cs n args =
     \<lparr>meth = POST, url = cell_endpoint cs @ ''/call'', req_headers = cell_headers cs,
      json_payload = Some (JObj [(''tool'', n), (''arguments'', args)]), timeout = 15\<rparr>"

definition make_call :: "py_lib \<Rightarrow> network \<Rightarrow> cells \<Rightarrow> string \<Rightarrow> (py_exc + string) \<times> http_request list" where
  "make_call lib net cs input_json =
     (case cell_t cs of
        None \<Rightarrow> (Inl NameError, [])
      | Some t \<Rightarrow>
          (case subscript t ''name'' of
             Inl e \<Rightarrow> (Inl e, [])
           | Inr n \<Rightarrow>
               (case json_loads lib input_json of
                  None \<Rightarrow> (Inl JSONDecodeError, [])
                | Some args \<Rightarrow>
                    (case net (call_request cs n args) of
                       Raises e \<Rightarrow> (Inl e, [call_request cs n args])
                     | Responds resp \<Rightarrow>
                         (case raise_for_status resp of
                            Some e \<Rightarrow> (Inl e, [call_request cs n args])
                          | None \<Rightarrow> (Inr (resp_text resp), [call_request cs n args]))))))"

text \<open>Invoking a stub runs its function object: \<^verbatim>\<open>make_call\<close> over the cells of the
  call that made it.\<close>

definition invoke :: "py_lib \<Rightarrow> network \<Rightarrow> cells \<Rightarrow> function_tool \<Rightarrow> string \<Rightarrow> (py_exc + string) \<times> http_request list" where
  "invoke lib net cs tool input_json = make_call lib net cs input_json"

text \<open>The keyword arguments one iteration computes after \<^verbatim>\<open>t\<close> is bound: the
  name (also stored as \<^verbatim>\<open>make_call.__name__\<close>), then the description, then the
  schema.\<close>

definition tool_arguments :: "py_lib \<Rightarrow> string \<Rightarrow> json \<Rightarrow> py_exc + function_tool" where
  "tool_arguments lib name_prefix t =
     (case subscript t ''name'' of
        Inl e \<Rightarrow> Inl e
      | Inr n \<Rightarrow>
          (case subscript t ''description'' of
             Inl e \<Rightarrow> Inl e
           | Inr d \<Rightarrow>
               (case subscript t ''inputSchema'' of
                  Inl e \<Rightarrow> Inl e
                | Inr s \<Rightarrow>
                    Inr \<lparr>func = name_prefix @ ''_'' @ format_field lib n,
                         name = name_prefix @ ''_'' @ format_field lib n,
                         description = d, parameters = s\<rparr>)))"

text \<open>
  The \<^verbatim>\<open>for\<close> loop: it binds \<^verbatim>\<open>t\<close>, computes the arguments, calls the
  constructor and appends the tool. \<open>calls\<close> lists the arguments of the
  constructor calls made so far, also of the one that raised.
\<close>

fun tools_loop :: "py_lib \<Rightarrow> string \<Rightarrow> cells \<Rightarrow> function_tool list \<Rightarrow> function_tool list \<Rightarrow> json list \<Rightarrow> (py_exc + (function_tool list \<times> cells)) \<times> function_tool list" where
  "tools_loop lib name_prefix cs tools calls [] = (Inr (tools, cs), calls)"
| "tools_loop lib name_prefix cs tools calls (t # ts) =
     (case tool_arguments lib name_prefix t of
        Inl e \<Rightarrow> (Inl e, calls)
      | Inr a \<Rightarrow>
          (case function_tool_init lib a of
             Some e \<Rightarrow> (Inl e, calls @ [a])
           | None \<Rightarrow>
               tools_loop lib name_prefix (cs\<lparr>cell_t := Some t\<rparr>) (tools @ [a]) (calls @ [a]) ts))"

text \<open>\<^verbatim>\<open>headers = headers or {}\<close>.\<close>

definition headers_or_empty :: "(string \<times> string) list option \<Rightarrow> (string \<times> string) list" where
  "headers_or_empty headers = (case headers of None \<Rightarrow> [] | Some h \<Rightarrow> h)"

definition handshake_request :: "string \<Rightarrow> (string \<times> string) list option \<Rightarrow> http_request" where
  "handshake_request endpoint headers =
     \<lparr>meth = GET, url = endpoint @ ''/mcp'', req_headers = headers_or_empty headers,
      json_payload = None, timeout = 10\<rparr>"

text \<open>The body of the \<^verbatim>\<open>try\<close>, with the constructor calls it made.\<close>

definition try_body :: "py_lib \<Rightarrow> network \<Rightarrow> string \<Rightarrow> string \<Rightarrow> (string \<times> string) list option \<Rightarrow> (py_exc + (function_tool list \<times> cells)) \<times> function_tool list" where
  "try_body lib net endpoint name_prefix headers =
     (case net (handshake_request endpoint headers) of
        Raises e \<Rightarrow> (Inl e, [])
      | Responds resp \<Rightarrow>
          (case response_json resp of
             Inl e \<Rightarrow> (Inl e, [])
           | Inr handshake \<Rightarrow>
               (case dict_get handshake ''tools'' (JArr []) of
                  Inl e \<Rightarrow> (Inl e, [])
                | Inr listed \<Rightarrow>
                    (case py_iter listed of
                       Inl e \<Rightarrow> (Inl e, [])
                     | Inr ts \<Rightarrow>
                         tools_loop lib name_prefix
                           \<lparr>cell_endpoint = endpoint, cell_headers = headers_or_empty headers, cell_t = None\<rparr>
                           [] [] ts))))"

text \<open>
  What a call of \<^verbatim>\<open>build_sse_tools\<close> leaves: the value it returns (\<open>Inl\<close>: an
  error it does not catch), the cells its stubs share, the requests it issued,
  the warnings it logged and the arguments of its constructor calls.
\<close>

record discovery =
  returned :: "py_exc + function_tool list"
  closure :: cells
  requests :: "http_request list"
  warnings :: "string list"
  constructed :: "function_tool list"

definition build_sse_tools :: "py_lib \<Rightarrow> network \<Rightarrow> string \<Rightarrow> string \<Rightarrow> (string \<times> string) list option \<Rightarrow> discovery" where
  "build_sse_tools lib net endpoint name_prefix headers =
     (case try_body lib net endpoint name_prefix headers of
        (Inr (tools, cs), calls) \<Rightarrow>
          \<lparr>returned = Inr tools, closure = cs,
           requests = [handshake_request endpoint headers], warnings = [],
           constructed = calls\<rparr>
      | (Inl e, calls) \<Rightarrow>
          if is_Exception e
          then \<lparr>returned = Inr [],
                closure = \<lparr>cell_endpoint = endpoint, cell_headers = headers_or_empty headers, cell_t = None\<rparr>,
                requests = [handshake_request endpoint headers],
                warnings = [''Failed to load tools from '' @ endpoint @ '': '' @ str_exc lib e],
                constructed = calls\<rparr>
          else \<lparr>returned = Inl e,
                closure = \<lparr>cell_endpoint = endpoint, cell_headers = headers_or_empty headers, cell_t = None\<rparr>,
                requests = [handshake_request endpoint headers], warnings = [],
                constructed = calls\<rparr>)"

text \<open>
  The module builds two bundles, one after the other, and gives the agent
  \<^verbatim>\<open>make_tools + monday_tools\<close>. An error that escapes the first call ends the
  module before the second call is made.
\<close>

definition monday_headers :: "string \<Rightarrow> (string \<times> string) list" where
  "monday_headers monday_token =
     (if monday_token \<noteq> [] then [(''Authorization'', ''Bearer '' @ monday_token)] else [])"

definition agent_tools :: "py_lib \<Rightarrow> network \<Rightarrow> string \<Rightarrow> py_exc + function_tool list" where
  "agent_tools lib net monday_token =
     (case returned (build_sse_tools lib net
             ''https://us2.make.com/mcp/api/v1/u/12508d4f-a637-469c-8821-9c16667c0f41/sse''
             ''make'' None) of
        Inl e \<Rightarrow> Inl e
      | Inr make_tools \<Rightarrow>
          (case returned (build_sse_tools lib net ''https://mcp.monday.com/sse'' ''monday''
                  (Some (monday_headers monday_token))) of
             Inl e \<Rightarrow> Inl e
           | Inr monday_tools \<Rightarrow> Inr (make_tools @ monday_tools)))"

section \<open>The chat loop of \<^verbatim>\<open>main\<close>\<close>

text \<open>\<^verbatim>\<open>str.strip()\<close> and \<^verbatim>\<open>str.lower()\<close> on code points below 256: the white
  space is U+0009 to U+000D, U+001C to U+0020, U+0085 and U+00A0; the upper-case
  letters are A to Z and U+00C0 to U+00DE without U+00D7.\<close>

definition isspace :: "char \<Rightarrow> bool" where
  "isspace c =
     (let n = (of_char c :: nat)
      in (9 \<le> n \<and> n \<le> 13) \<or> (28 \<le> n \<and> n \<le> 32) \<or> n = 133 \<or> n = 160)"

definition strip :: "string \<Rightarrow> string" where
  "strip s = rev (dropWhile isspace (rev (dropWhile isspace s)))"

definition lower_char :: "char \<Rightarrow> char" where
  "lower_char c =
     (let n = (of_char c :: nat)
      in if (65 \<le> n \<and> n \<le> 90) \<or> (192 \<le> n \<and> n \<le> 222 \<and> n \<noteq> 215)
         then char_of (n + 32) else c)"

definition lower :: "string \<Rightarrow> string" where
  "lower s = map lower_char s"

text \<open>\<^verbatim>\<open>user.strip().lower() in {"quit", "exit"}\<close>.\<close>

definition is_quit :: "string \<Rightarrow> bool" where
  "is_quit user = (lower (strip user) \<in> {''quit'', ''exit''})"

text \<open>An attribute of an event holds \<^verbatim>\<open>None\<close> or a string; an event may lack
  either attribute (\<open>None\<close> of the option: \<^verbatim>\<open>hasattr\<close> is false).\<close>

datatype pyval = PyNone | PyStr string

fun truthy :: "pyval \<Rightarrow> bool" where
  "truthy PyNone = False"
| "truthy (PyStr s) = (s \<noteq> [])"

fun str_val :: "pyval \<Rightarrow> string" where
  "str_val PyNone = ''None''"
| "str_val (PyStr s) = s"

record event =
  content :: "pyval option"
  text_attr :: "pyval option"

text \<open>The body of \<^verbatim>\<open>async for event in events\<close>: the new value of
  \<^verbatim>\<open>final_response\<close>.\<close>

definition keep_response :: "pyval \<Rightarrow> event \<Rightarrow> pyval" where
  "keep_response final_response ev =
     (if (case content ev of None \<Rightarrow> False | Some c \<Rightarrow> truthy c)
      then (case content ev of None \<Rightarrow> final_response | Some c \<Rightarrow> c)
      else (case text_attr ev of None \<Rightarrow> final_response | Some t \<Rightarrow> t))"

definition final_response_of :: "event list \<Rightarrow> pyval" where
  "final_response_of evs = foldl keep_response (PyStr []) evs"

text \<open>\<^verbatim>\<open>print(final_response or "No response received.")\<close>.\<close>

definition printed_reply :: "event list \<Rightarrow> string" where
  "printed_reply evs =
     (if truthy (final_response_of evs) then str_val (final_response_of evs)
      else ''No response received.'')"

text \<open>
  What the agent runtime does with one message: the events its stream yields and
  the error that ends the turn, if one does. An error of the import, of the
  message constructor or of \<^verbatim>\<open>run_async\<close> itself is a turn that raises before
  any event. The runtime owns the session: it is a function of its state and the
  content of the message.
\<close>

record turn =
  events :: "event list"
  raised :: "py_exc option"

type_synonym 'rs runtime = "'rs \<Rightarrow> string \<Rightarrow> turn \<times> 'rs"

datatype written = Prompt string | Print string

datatype exit_status = Quit | Uncaught py_exc

datatype loop_state = AWAITING_INPUT | PROCESSING string | TERMINATED exit_status

fun is_terminated :: "loop_state \<Rightarrow> bool" where
  "is_terminated (TERMINATED _) = True"
| "is_terminated _ = False"

text \<open>
  The loop as a machine. \<open>stdin\<close> holds the lines still to be read: \<^verbatim>\<open>input\<close>
  on an exhausted input raises \<^verbatim>\<open>EOFError\<close>, outside the \<^verbatim>\<open>try\<close>. \<open>forwarded\<close>
  lists the texts the \<^verbatim>\<open>try\<close> block was entered with: each is the content of the
  message built for \<^verbatim>\<open>run_async\<close>.
\<close>

record 'rs config =
  state :: loop_state
  stdin :: "string list"
  session :: 'rs
  stdout :: "written list"
  forwarded :: "string list"

definition step :: "py_lib \<Rightarrow> 'rs runtime \<Rightarrow> 'rs config \<Rightarrow> 'rs config" where
  "step lib rt c =
     (case state c of
        AWAITING_INPUT \<Rightarrow>
          (case stdin c of
             [] \<Rightarrow> c\<lparr>state := TERMINATED (Uncaught EOFError), stdout := stdout c @ [Prompt ''> '']\<rparr>
           | user # rest \<Rightarrow>
               c\<lparr>state := (if is_quit user then TERMINATED Quit else PROCESSING user),
                 stdin := rest, stdout := stdout c @ [Prompt ''> '']\<rparr>)
      | PROCESSING user \<Rightarrow>
          (case rt (session c) user of
             (tr, s') \<Rightarrow>
               (case raised tr of
                  None \<Rightarrow>
                    c\<lparr>state := AWAITING_INPUT, session := s',
                      stdout := stdout c @ [Print (printed_reply (events tr))],
                      forwarded := forwarded c @ [user]\<rparr>
                | Some e \<Rightarrow>
                    if is_Exception e
                    then c\<lparr>state := AWAITING_INPUT, session := s',
                           stdout := stdout c @
                             [Print (''Error: '' @ str_exc lib e),
                              Print ''Please make sure your GOOGLE_API_KEY is set and the MCP endpoints are accessible.''],
                           forwarded := forwarded c @ [user]\<rparr>
                    else c\<lparr>state := TERMINATED (Uncaught e), session := s',
                           forwarded := forwarded c @ [user]\<rparr>))
      | TERMINATED x \<Rightarrow> c)"

text \<open>\<^verbatim>\<open>while True\<close>: the machine runs until it has terminated.\<close>

function run :: "py_lib \<Rightarrow> 'rs runtime \<Rightarrow> 'rs config \<Rightarrow> 'rs config" where
  "run lib rt c = (if is_terminated (state c) then c else run lib rt (step lib rt c))"
  by pat_completeness auto

termination run
proof (relation "measure (\<lambda>(lib, rt, c). case state c of
          TERMINATED x \<Rightarrow> 0
        | AWAITING_INPUT \<Rightarrow> 2 * length (stdin c) + 2
        | PROCESSING u \<Rightarrow> 2 * length (stdin c) + 3)")
  show "wf (measure (\<lambda>(lib, rt, c). case state c of
          TERMINATED x \<Rightarrow> 0
        | AWAITING_INPUT \<Rightarrow> 2 * length (stdin c) + 2
        | PROCESSING u \<Rightarrow> 2 * length (stdin c) + 3))"
    by simp
next
  fix lib :: py_lib and rt :: "'a runtime" and c :: "'a config"
  assume "\<not> is_terminated (state c)"
  then show "((lib, rt, step lib rt c), lib, rt, c) \<in> measure (\<lambda>(lib, rt, c). case state c of
          TERMINATED x \<Rightarrow> 0
        | AWAITING_INPUT \<Rightarrow> 2 * length (stdin c) + 2
        | PROCESSING u \<Rightarrow> 2 * length (stdin c) + 3)"
    by (cases "state c") (auto simp: step_def split: list.splits prod.splits option.splits)
qed

declare run.simps [simp del]

text \<open>The loop starts at the first prompt.\<close>

definition chat_loop :: "py_lib \<Rightarrow> 'rs runtime \<Rightarrow> 'rs \<Rightarrow> string list \<Rightarrow> 'rs config" where
  "chat_loop lib rt s lines =
     run lib rt \<lparr>state = AWAITING_INPUT, stdin = lines, session = s, stdout = [], forwarded = []\<rparr>"

section \<open>Concrete inputs for the examples\<close>

text \<open>
  An instance of the library functions for the examples below. \<open>json_loads\<close>
  decodes the two argument texts the examples use as \<^verbatim>\<open>json.loads\<close> does; the
  examples give it no other text but \<^verbatim>\<open>not json\<close>, which \<^verbatim>\<open>json.loads\<close> rejects.
  The texts of \<open>str_exc\<close> stand for the messages of the library. The constructor
  is the one of a class that takes the function alone: the call with four keyword
  arguments raises \<^verbatim>\<open>TypeError\<close>.
\<close>

definition sample_lib :: py_lib where
  "sample_lib =
     \<lparr>json_loads =
        (\<lambda>s. if s = ''{\"board_id\": 1}'' then Some (JObj [(''board_id'', JNum 1)])
              else if s = ''{}'' then Some (JObj [])
              else None),
      format_value =
        (\<lambda>v. case v of JNull \<Rightarrow> ''None'' | JBool b \<Rightarrow> (if b then ''True'' else ''False'') | _ \<Rightarrow> []),
      str_exc =
        (\<lambda>e. case e of
                KeyError k \<Rightarrow> [CHR 0x27] @ k @ [CHR 0x27]
              | HTTPError n \<Rightarrow> ''HTTP error''
              | LibraryError m \<Rightarrow> m
              | Interrupt m \<Rightarrow> m
              | _ \<Rightarrow> []),
      function_tool_init = (\<lambda>a. Some TypeError)\<rparr>"

text \<open>A network that answers every GET with one outcome and every POST with
  another.\<close>

definition server :: "http_outcome \<Rightarrow> http_outcome \<Rightarrow> network" where
  "server get_answer post_answer req = (case meth req of GET \<Rightarrow> get_answer | POST \<Rightarrow> post_answer)"

text \<open>A manifest entry \<^verbatim>\<open>{"name": n, "description": "x", "inputSchema": {}}\<close> and a
  response with status \<open>st\<close> whose body decodes to \<^verbatim>\<open>{"tools": ts}\<close>.\<close>

definition entry :: "string \<Rightarrow> json" where
  "entry n = JObj [(''name'', JStr n), (''description'', JStr ''x''), (''inputSchema'', JObj [])]"

definition manifest :: "nat \<Rightarrow> json list \<Rightarrow> http_outcome" where
  "manifest st ts =
     Responds \<lparr>status_code = st, resp_text = [], resp_json = Some (JObj [(''tools'', JArr ts)])\<rparr>"

definition answer :: "nat \<Rightarrow> string \<Rightarrow> http_outcome" where
  "answer st body = Responds \<lparr>status_code = st, resp_text = body, resp_json = None\<rparr>"

text \<open>A runtime that answers each message by invoking one stub on the argument
  text \<^verbatim>\<open>{}\<close>: the result of the stub is the content of its only event, an error
  of the stub ends the turn. The session counts the turns.\<close>

definition tool_runtime :: "py_lib \<Rightarrow> network \<Rightarrow> cells \<Rightarrow> nat runtime" where
  "tool_runtime lib net cs s user =
     (case fst (make_call lib net cs ''{}'') of
        Inl e \<Rightarrow> (\<lparr>events = [], raised = Some e\<rparr>, Suc s)
      | Inr body \<Rightarrow> (\<lparr>events = [\<lparr>content = Some (PyStr body), text_attr = None\<rparr>], raised = None\<rparr>, Suc s))"

text \<open>A runtime whose every turn yields the same events and ends the same way.\<close>

definition fixed_runtime :: "event list \<Rightarrow> py_exc option \<Rightarrow> nat runtime" where
  "fixed_runtime evs err s user = (\<lparr>events = evs, raised = err\<rparr>, Suc s)"

section \<open>Properties of the tool adapter\<close>



lemma tools_loop_result:
  "tools_loop lib p cs acc calls ts = (Inr (tools, cs'), calls') \<Longrightarrow>
     length tools = length acc + length ts \<and> take (length acc) tools = acc \<and>
     (\<forall>i < length ts. tool_arguments lib p (ts ! i) = Inr (tools ! (length acc + i))) \<and>
     cell_endpoint cs' = cell_endpoint cs \<and> cell_headers cs' = cell_headers cs \<and>
     cell_t cs' = (if ts = [] then cell_t cs else Some (last ts))"
proof (induction ts arbitrary: cs acc calls)
  case Nil
  then show ?case by simp
next
  case (Cons t ts)
  from Cons.prems obtain tool where mt: "tool_arguments lib p t = Inr tool"
    and rec: "tools_loop lib p (cs\<lparr>cell_t := Some t\<rparr>) (acc @ [tool]) (calls @ [tool]) ts
                = (Inr (tools, cs'), calls')"
    by (auto split: sum.splits option.splits)
  note ih = Cons.IH [OF rec]
  from ih have len: "length tools = length acc + length (t # ts)" by simp
  from ih have tk: "take (Suc (length acc)) tools = acc @ [tool]" by simp
  then have tk': "take (length acc) tools = acc"
    by (metis append_eq_conv_conj butlast_snoc butlast_take diff_Suc_1 len length_Cons
        add_Suc_right le_add1 not_less_eq_eq take_all_iff)
  have hd: "tools ! length acc = tool"
    using tk len by (metis length_append_singleton lessI nth_append_length nth_take)
  have nth: "\<forall>i < length (t # ts). tool_arguments lib p ((t # ts) ! i) = Inr (tools ! (length acc + i))"
  proof (intro allI impI)
    fix i assume i: "i < length (t # ts)"
    show "tool_arguments lib p ((t # ts) ! i) = Inr (tools ! (length acc + i))"
    proof (cases i)
      case 0
      then show ?thesis using mt hd by simp
    next
      case (Suc j)
      with i have "j < length ts" by simp
      with ih have "tool_arguments lib p (ts ! j) = Inr (tools ! (length (acc @ [tool]) + j))" by blast
      then show ?thesis using Suc by simp
    qed
  qed
  from ih have cells: "cell_endpoint cs' = cell_endpoint cs" "cell_headers cs' = cell_headers cs"
    "cell_t cs' = Some (last (t # ts))" by (auto)
  show ?case using len tk' nth cells by simp
qed


lemma subscript_error_class: "subscript v k = Inl e \<Longrightarrow> is_Exception e"
  by (cases v) (auto split: option.splits)

lemma dict_get_error_class: "dict_get v k d = Inl e \<Longrightarrow> is_Exception e"
  by (cases v) auto

lemma py_iter_error_class: "py_iter v = Inl e \<Longrightarrow> is_Exception e"
  by (cases v) auto

lemma tool_arguments_error_class: "tool_arguments lib p t = Inl e \<Longrightarrow> is_Exception e"
  by (auto simp: tool_arguments_def split: sum.splits dest: subscript_error_class)

lemma tools_loop_error_class:
  "\<forall>a x. function_tool_init lib a = Some x \<longrightarrow> is_Exception x \<Longrightarrow>
     fst (tools_loop lib p cs acc calls ts) = Inl e \<Longrightarrow> is_Exception e"
  by (induction ts arbitrary: cs acc calls)
    (auto split: sum.splits option.splits dest: tool_arguments_error_class)


lemma try_body_manifest:
  assumes "net (handshake_request endpoint headers) = Responds resp"
    and "resp_json resp = Some (JObj kvs)"
    and "map_of kvs ''tools'' = Some (JArr entries)"
  shows "try_body lib net endpoint p headers =
           tools_loop lib p
             \<lparr>cell_endpoint = endpoint, cell_headers = headers_or_empty headers, cell_t = None\<rparr>
             [] [] entries"
  using assms by (simp add: try_body_def response_json_def)

lemma returned_cases:
  "returned (build_sse_tools lib net endpoint p headers) =
     (case fst (try_body lib net endpoint p headers) of
        Inr r \<Rightarrow> Inr (fst r)
      | Inl e \<Rightarrow> if is_Exception e then Inr [] else Inl e)"
  by (simp add: build_sse_tools_def split: sum.splits prod.splits)

lemma closure_cases:
  "closure (build_sse_tools lib net endpoint p headers) =
     (case fst (try_body lib net endpoint p headers) of
        Inr r \<Rightarrow> snd r
      | Inl e \<Rightarrow> \<lparr>cell_endpoint = endpoint, cell_headers = headers_or_empty headers, cell_t = None\<rparr>)"
  by (simp add: build_sse_tools_def split: sum.splits prod.splits)

lemma warnings_cases:
  "warnings (build_sse_tools lib net endpoint p headers) =
     (case fst (try_body lib net endpoint p headers) of
        Inr r \<Rightarrow> []
      | Inl e \<Rightarrow> if is_Exception e
                 then [''Failed to load tools from '' @ endpoint @ '': '' @ str_exc lib e] else [])"
  by (simp add: build_sse_tools_def split: sum.splits prod.splits)


lemma requests_build: "requests (build_sse_tools lib net endpoint p headers) = [handshake_request endpoint headers]"
  by (simp add: build_sse_tools_def split: sum.splits prod.splits)

lemma try_body_error_class:
  assumes "fst (try_body lib net endpoint p headers) = Inl e"
    and "\<forall>x. net (handshake_request endpoint headers) = Raises x \<longrightarrow> is_Exception x"
    and "\<forall>a x. function_tool_init lib a = Some x \<longrightarrow> is_Exception x"
  shows "is_Exception e"
proof (cases "net (handshake_request endpoint headers)")
  case (Raises x)
  with assms show ?thesis by (simp add: try_body_def)
next
  case (Responds resp)
  with assms(1) tools_loop_error_class [OF assms(3)] show ?thesis
    by (auto simp: try_body_def response_json_def split: sum.splits option.splits
        dest: dict_get_error_class py_iter_error_class)
qed



text \<open>
  Claim C7. When the fetch succeeds and the list under \<^verbatim>\<open>"tools"\<close> is empty,
  discovery returns the empty list and logs no warning: for such a manifest a
  warning can only come from a fetch that failed.
\<close>

theorem empty_manifest_logs_nothing:
  assumes "net (handshake_request endpoint headers) = Responds resp"
    and "resp_json resp = Some (JObj kvs)"
    and "map_of kvs ''tools'' = Some (JArr [])"
  shows "returned (build_sse_tools lib net endpoint name_prefix headers) = Inr []
         \<and> warnings (build_sse_tools lib net endpoint name_prefix headers) = []"
  using assms by (simp add: returned_cases warnings_cases try_body_manifest)

text \<open>A manifest \<^verbatim>\<open>{"tools": []}\<close> answered with status 200.\<close>

theorem empty_manifest_logs_nothing_witness:
  "returned (build_sse_tools sample_lib (server (manifest 200 []) (answer 200 ''ok''))
       ''https://mcp.monday.com/sse'' ''monday'' None) = Inr []
   \<and> warnings (build_sse_tools sample_lib (server (manifest 200 []) (answer 200 ''ok''))
       ''https://mcp.monday.com/sse'' ''monday'' None) = []"
  using empty_manifest_logs_nothing
    [where net = "server (manifest 200 []) (answer 200 ''ok'')"
       and endpoint = "''https://mcp.monday.com/sse''" and headers = None
       and resp = "\<lparr>status_code = 200, resp_text = [], resp_json = Some (JObj [(''tools'', JArr [])])\<rparr>"
       and kvs = "[(''tools'', JArr [])]" and lib = sample_lib and name_prefix = "''monday''"]
  by (simp add: server_def manifest_def handshake_request_def)

subsection \<open>Invoking a stub\<close>


lemma make_call_valid:
  assumes "cell_t cs = Some t" and "subscript t ''name'' = Inr n"
    and "json_loads lib input_json = Some args"
  shows "make_call lib net cs input_json =
     (case net (call_request cs n args) of
        Raises e \<Rightarrow> Inl e
      | Responds resp \<Rightarrow>
          if 400 \<le> status_code resp \<and> status_code resp < 600
          then Inl (HTTPError (status_code resp)) else Inr (resp_text resp),
      [call_request cs n args])"
  using assms by (simp add: make_call_def raise_for_status_def split: http_outcome.splits)

text \<open>
  Claim C8, amended. When the POST of a stub invocation is answered, the stub
  issues that one request and nothing more (no retry), and its result follows
  the status as \<^verbatim>\<open>raise_for_status\<close> reads it: a status from 400 to 599 raises
  \<^verbatim>\<open>HTTPError\<close> to the caller of the stub; any other status, also one outside
  200 to 299, returns \<^verbatim>\<open>resp.text\<close> unchanged.
\<close>

theorem stub_result_follows_status:
  assumes "cell_t cs = Some t" and "subscript t ''name'' = Inr n"
    and "json_loads lib input_json = Some args"
    and "net (call_request cs n args) = Responds resp"
  shows "invoke lib net cs tool input_json =
           (if 400 \<le> status_code resp \<and> status_code resp < 600
            then Inl (HTTPError (status_code resp)) else Inr (resp_text resp),
            [call_request cs n args])"
  using assms by (simp add: invoke_def make_call_valid)

text \<open>The stub of \<^verbatim>\<open>create_item\<close> against a server that answers 200 and against
  one that answers 500.\<close>

theorem stub_result_follows_status_witness:
  "invoke sample_lib (server (manifest 200 [entry ''create_item'']) (answer 200 ''{\"id\": 7}''))
       \<lparr>cell_endpoint = ''https://mcp.monday.com/sse'', cell_headers = [], cell_t = Some (entry ''create_item'')\<rparr>
       \<lparr>func = ''monday_create_item'', name = ''monday_create_item'', description = JStr ''x'', parameters = JObj []\<rparr>
       ''{\"board_id\": 1}''
     = (Inr ''{\"id\": 7}'',
        [\<lparr>meth = POST, url = ''https://mcp.monday.com/sse/call'', req_headers = [],
          json_payload = Some (JObj [(''tool'', JStr ''create_item''), (''arguments'', JObj [(''board_id'', JNum 1)])]),
          timeout = 15\<rparr>])
   \<and> invoke sample_lib (server (manifest 200 [entry ''create_item'']) (answer 500 ''oops''))
       \<lparr>cell_endpoint = ''https://mcp.monday.com/sse'', cell_headers = [], cell_t = Some (entry ''create_item'')\<rparr>
       \<lparr>func = ''monday_create_item'', name = ''monday_create_item'', description = JStr ''x'', parameters = JObj []\<rparr>
       ''{\"board_id\": 1}''
     = (Inl (HTTPError 500),
        [\<lparr>meth = POST, url = ''https://mcp.monday.com/sse/call'', req_headers = [],
          json_payload = Some (JObj [(''tool'', JStr ''create_item''), (''arguments'', JObj [(''board_id'', JNum 1)])]),
          timeout = 15\<rparr>])"
proof -
  let ?cs = "\<lparr>cell_endpoint = ''https://mcp.monday.com/sse'', cell_headers = [], cell_t = Some (entry ''create_item'')\<rparr>"
  let ?tool = "\<lparr>func = ''monday_create_item'', name = ''monday_create_item'', description = JStr ''x'', parameters = JObj []\<rparr>"
  let ?ok = "\<lparr>status_code = 200, resp_text = ''{\"id\": 7}'', resp_json = None\<rparr>"
  let ?bad = "\<lparr>status_code = 500, resp_text = ''oops'', resp_json = None\<rparr>"
  have t: "cell_t ?cs = Some (entry ''create_item'')" by simp
  have n: "subscript (entry ''create_item'') ''name'' = Inr (JStr ''create_item'')"
    by (simp add: entry_def)
  have a: "json_loads sample_lib ''{\"board_id\": 1}'' = Some (JObj [(''board_id'', JNum 1)])"
    by (simp add: sample_lib_def)
  have p: "server (manifest 200 [entry ''create_item'']) (answer 200 ''{\"id\": 7}'')
             (call_request ?cs (JStr ''create_item'') (JObj [(''board_id'', JNum 1)])) = Responds ?ok"
    by (simp add: server_def answer_def call_request_def)
  have q: "server (manifest 200 [entry ''create_item'']) (answer 500 ''oops'')
             (call_request ?cs (JStr ''create_item'') (JObj [(''board_id'', JNum 1)])) = Responds ?bad"
    by (simp add: server_def answer_def call_request_def)
  note ok = stub_result_follows_status
    [where net = "server (manifest 200 [entry ''create_item'']) (answer 200 ''{\"id\": 7}'')"
       and resp = ?ok and tool = ?tool, OF t n a p]
  note bad = stub_result_follows_status
    [where net = "server (manifest 200 [entry ''create_item'']) (answer 500 ''oops'')"
       and resp = ?bad and tool = ?tool, OF t n a q]
  show ?thesis unfolding ok bad by (simp add: call_request_def)
qed

text \<open>
  The claim as written fails: a final status 304 is not a success status, yet the
  stub raises nothing and returns the body.
\<close>

theorem status_304_counterexample:
  "invoke sample_lib (server (manifest 200 [entry ''create_item'']) (answer 304 ''stale''))
       \<lparr>cell_endpoint = ''https://mcp.monday.com/sse'', cell_headers = [], cell_t = Some (entry ''create_item'')\<rparr>
       \<lparr>func = ''monday_create_item'', name = ''monday_create_item'', description = JStr ''x'', parameters = JObj []\<rparr>
       ''{\"board_id\": 1}''
     = (Inr ''stale'',
        [\<lparr>meth = POST, url = ''https://mcp.monday.com/sse/call'', req_headers = [],
          json_payload = Some (JObj [(''tool'', JStr ''create_item''), (''arguments'', JObj [(''board_id'', JNum 1)])]),
          timeout = 15\<rparr>])"
  by (simp add: invoke_def make_call_def entry_def sample_lib_def server_def answer_def
      call_request_def raise_for_status_def)

text \<open>
  Claim C10. When the argument text is not valid JSON, the invocation raises and
  no request has been issued: the POST is never sent.
\<close>

theorem malformed_arguments_send_nothing:
  assumes "json_loads lib input_json = None"
  shows "(\<exists>e. fst (invoke lib net cs tool input_json) = Inl e \<and> is_Exception e)
         \<and> snd (invoke lib net cs tool input_json) = []"
  using assms
  by (auto simp: invoke_def make_call_def split: option.splits sum.splits dest: subscript_error_class)

text \<open>The argument text \<^verbatim>\<open>not json\<close>.\<close>

theorem malformed_arguments_send_nothing_witness:
  "invoke sample_lib (server (manifest 200 [entry ''create_item'']) (answer 200 ''ok''))
       \<lparr>cell_endpoint = ''https://mcp.monday.com/sse'', cell_headers = [], cell_t = Some (entry ''create_item'')\<rparr>
       \<lparr>func = ''monday_create_item'', name = ''monday_create_item'', description = JStr ''x'', parameters = JObj []\<rparr>
       ''not json''
     = (Inl JSONDecodeError, [])"
proof -
  let ?r = "invoke sample_lib (server (manifest 200 [entry ''create_item'']) (answer 200 ''ok''))
       \<lparr>cell_endpoint = ''https://mcp.monday.com/sse'', cell_headers = [], cell_t = Some (entry ''create_item'')\<rparr>
       \<lparr>func = ''monday_create_item'', name = ''monday_create_item'', description = JStr ''x'', parameters = JObj []\<rparr>
       ''not json''"
  have l: "json_loads sample_lib ''not json'' = None" by (simp add: sample_lib_def)
  have "snd ?r = []" using malformed_arguments_send_nothing [OF l] by blast
  moreover have "fst ?r = Inl JSONDecodeError"
    by (simp add: invoke_def make_call_def entry_def sample_lib_def)
  ultimately show ?thesis by (simp add: prod_eq_iff)
qed

lemma try_body_Inr:
  "try_body lib net endpoint p headers = (Inr r, calls) \<Longrightarrow>
     \<exists>ts. tools_loop lib p
            \<lparr>cell_endpoint = endpoint, cell_headers = headers_or_empty headers, cell_t = None\<rparr> [] [] ts
          = (Inr r, calls)"
  by (auto simp: try_body_def split: http_outcome.splits sum.splits)

lemma closure_endpoint:
  "cell_endpoint (closure (build_sse_tools lib net endpoint p headers)) = endpoint
   \<and> cell_headers (closure (build_sse_tools lib net endpoint p headers)) = headers_or_empty headers"
proof (cases "fst (try_body lib net endpoint p headers)")
  case (Inl e)
  then show ?thesis by (simp add: closure_cases)
next
  case (Inr r)
  obtain tools cs where r: "r = (tools, cs)" by (cases r)
  from Inr obtain calls where "try_body lib net endpoint p headers = (Inr r, calls)"
    by (cases "try_body lib net endpoint p headers") simp
  from try_body_Inr [OF this] r obtain ts where
    "tools_loop lib p \<lparr>cell_endpoint = endpoint, cell_headers = headers_or_empty headers, cell_t = None\<rparr> [] [] ts
       = (Inr (tools, cs), calls)" by blast
  from tools_loop_result [OF this] have "cell_endpoint cs = endpoint" "cell_headers cs = headers_or_empty headers"
    by simp_all
  with Inr r show ?thesis by (simp add: closure_cases)
qed

lemma make_call_requests:
  "r \<in> set (snd (make_call lib net cs input_json)) \<Longrightarrow>
     meth r = POST \<and> url r = cell_endpoint cs @ ''/call'' \<and> timeout r = 15 \<and> req_headers r = cell_headers cs"
  by (auto simp: make_call_def call_request_def split: option.splits sum.splits http_outcome.splits)

text \<open>
  Claim C9. Discovery issues one request, a GET to \<^verbatim>\<open>{endpoint}/mcp\<close> with a
  timeout of 10 seconds; every request of a stub invocation is a POST to
  \<^verbatim>\<open>{endpoint}/call\<close> with a timeout of 15 seconds, where the endpoint is the
  one discovery was called with.
\<close>

theorem request_timeouts:
  "(\<forall>r \<in> set (requests (build_sse_tools lib net endpoint name_prefix headers)).
       meth r = GET \<and> url r = endpoint @ ''/mcp'' \<and> timeout r = 10)
   \<and> length (requests (build_sse_tools lib net endpoint name_prefix headers)) = 1
   \<and> (\<forall>r \<in> set (snd (invoke lib net' (closure (build_sse_tools lib net endpoint name_prefix headers)) tool input_json)).
       meth r = POST \<and> url r = endpoint @ ''/call'' \<and> timeout r = 15)
   \<and> (\<forall>r \<in> set (snd (make_call lib net' cs input_json)).
       meth r = POST \<and> url r = cell_endpoint cs @ ''/call'' \<and> timeout r = 15)"
proof (intro conjI ballI)
  fix r assume "r \<in> set (requests (build_sse_tools lib net endpoint name_prefix headers))"
  then have r: "r = handshake_request endpoint headers" by (simp add: requests_build)
  show "meth r = GET" "url r = endpoint @ ''/mcp''" "timeout r = 10"
    unfolding r by (simp_all add: handshake_request_def)
next
  show "length (requests (build_sse_tools lib net endpoint name_prefix headers)) = 1"
    by (simp add: requests_build)
next
  fix r
  assume "r \<in> set (snd (invoke lib net' (closure (build_sse_tools lib net endpoint name_prefix headers)) tool input_json))"
  then have "r \<in> set (snd (make_call lib net' (closure (build_sse_tools lib net endpoint name_prefix headers)) input_json))"
    by (simp add: invoke_def)
  from make_call_requests [OF this] closure_endpoint [of lib net endpoint name_prefix headers]
  show "meth r = POST" "url r = endpoint @ ''/call''" "timeout r = 15" by simp_all
next
  fix r assume "r \<in> set (snd (make_call lib net' cs input_json))"
  from make_call_requests [OF this]
  show "meth r = POST" "url r = cell_endpoint cs @ ''/call''" "timeout r = 15" by simp_all
qed

text \<open>The request of one discovery and the request of one call of \<^verbatim>\<open>make_call\<close>.\<close>

theorem request_timeouts_witness:
  "requests (build_sse_tools sample_lib (server (manifest 200 [entry ''create_item'']) (answer 200 ''ok''))
      ''https://mcp.monday.com/sse'' ''monday'' None)
     = [\<lparr>meth = GET, url = ''https://mcp.monday.com/sse/mcp'', req_headers = [], json_payload = None, timeout = 10\<rparr>]
   \<and> snd (make_call sample_lib (server (manifest 200 [entry ''create_item'']) (answer 200 ''ok''))
        \<lparr>cell_endpoint = ''https://mcp.monday.com/sse'', cell_headers = [], cell_t = Some (entry ''create_item'')\<rparr>
        ''{}'')
     = [\<lparr>meth = POST, url = ''https://mcp.monday.com/sse/call'', req_headers = [],
         json_payload = Some (JObj [(''tool'', JStr ''create_item''), (''arguments'', JObj [])]), timeout = 15\<rparr>]
   \<and> timeout (handshake_request ''https://mcp.monday.com/sse'' None) = 10"
proof -
  let ?net = "server (manifest 200 [entry ''create_item'']) (answer 200 ''ok'')"
  let ?b = "build_sse_tools sample_lib ?net ''https://mcp.monday.com/sse'' ''monday'' None"
  let ?cs = "\<lparr>cell_endpoint = ''https://mcp.monday.com/sse'', cell_headers = [], cell_t = Some (entry ''create_item'')\<rparr>"
  have q: "requests ?b = [\<lparr>meth = GET, url = ''https://mcp.monday.com/sse/mcp'', req_headers = [], json_payload = None, timeout = 10\<rparr>]"
    by (simp add: requests_build handshake_request_def headers_or_empty_def)
  have i: "snd (make_call sample_lib ?net ?cs ''{}'')
     = [\<lparr>meth = POST, url = ''https://mcp.monday.com/sse/call'', req_headers = [],
         json_payload = Some (JObj [(''tool'', JStr ''create_item''), (''arguments'', JObj [])]), timeout = 15\<rparr>]"
    by (simp add: make_call_def entry_def sample_lib_def server_def answer_def
        call_request_def raise_for_status_def)
  have "handshake_request ''https://mcp.monday.com/sse'' None \<in> set (requests ?b)"
    by (simp add: requests_build)
  with request_timeouts [of sample_lib ?net "''https://mcp.monday.com/sse''" "''monday''" None]
  have "timeout (handshake_request ''https://mcp.monday.com/sse'' None) = 10" by blast
  with q i show ?thesis by simp
qed

subsection \<open>Failures of discovery\<close>

lemma tool_arguments_fails:
  "subscript t k = Inl e \<Longrightarrow> k \<in> {''name'', ''description'', ''inputSchema''} \<Longrightarrow>
     \<exists>e'. tool_arguments lib p t = Inl e'"
  by (auto simp: tool_arguments_def split: sum.splits)

lemma caught:
  "fst (try_body lib net endpoint p headers) = Inl e \<Longrightarrow> is_Exception e \<Longrightarrow>
     returned (build_sse_tools lib net endpoint p headers) = Inr [] \<and>
     warnings (build_sse_tools lib net endpoint p headers) =
       [''Failed to load tools from '' @ endpoint @ '': '' @ str_exc lib e]"
  by (simp add: returned_cases warnings_cases)

text \<open>
  What the handler does achieve. When neither a request nor the constructor is
  ended by an interrupt outside class \<^verbatim>\<open>Exception\<close>, \<^verbatim>\<open>build_sse_tools\<close> returns a
  list to its caller, and every error raised in the body of its \<^verbatim>\<open>try\<close> (a GET
  that raises, a body that is not JSON, a constructor that rejects its
  arguments, any other error) is logged as one warning and answered with the
  empty list.
\<close>

lemma raised_errors_are_caught:
  assumes "\<forall>req x. net req = Raises x \<longrightarrow> is_Exception x"
    and "\<forall>a x. function_tool_init lib a = Some x \<longrightarrow> is_Exception x"
  shows "(\<exists>tools. returned (build_sse_tools lib net endpoint name_prefix headers) = Inr tools)
     \<and> (\<forall>e. fst (try_body lib net endpoint name_prefix headers) = Inl e \<longrightarrow>
            returned (build_sse_tools lib net endpoint name_prefix headers) = Inr [] \<and>
            warnings (build_sse_tools lib net endpoint name_prefix headers)
              = [''Failed to load tools from '' @ endpoint @ '': '' @ str_exc lib e])
     \<and> (\<forall>e. net (handshake_request endpoint headers) = Raises e \<longrightarrow>
            fst (try_body lib net endpoint name_prefix headers) = Inl e)
     \<and> (\<forall>resp. net (handshake_request endpoint headers) = Responds resp \<and> resp_json resp = None \<longrightarrow>
            fst (try_body lib net endpoint name_prefix headers) = Inl JSONDecodeError)"
proof -
  from assms(1) have ni: "\<forall>x. net (handshake_request endpoint headers) = Raises x \<longrightarrow> is_Exception x"
    by blast
  have cls: "\<And>e. fst (try_body lib net endpoint name_prefix headers) = Inl e \<Longrightarrow> is_Exception e"
    using ni assms(2)
      try_body_error_class [where net = net and endpoint = endpoint and headers = headers and lib = lib]
    by blast
  have c1: "\<exists>tools. returned (build_sse_tools lib net endpoint name_prefix headers) = Inr tools"
    using cls by (cases "fst (try_body lib net endpoint name_prefix headers)") (auto simp: returned_cases)
  have c2: "\<forall>e. fst (try_body lib net endpoint name_prefix headers) = Inl e \<longrightarrow>
            returned (build_sse_tools lib net endpoint name_prefix headers) = Inr [] \<and>
            warnings (build_sse_tools lib net endpoint name_prefix headers)
              = [''Failed to load tools from '' @ endpoint @ '': '' @ str_exc lib e]"
    using cls caught by blast
  have c3: "\<forall>e. net (handshake_request endpoint headers) = Raises e \<longrightarrow>
            fst (try_body lib net endpoint name_prefix headers) = Inl e"
    by (simp add: try_body_def)
  have c4: "\<forall>resp. net (handshake_request endpoint headers) = Responds resp \<and> resp_json resp = None \<longrightarrow>
            fst (try_body lib net endpoint name_prefix headers) = Inl JSONDecodeError"
    by (simp add: try_body_def response_json_def)
  from c1 c2 c3 c4 show ?thesis by blast
qed

text \<open>
  Claim C2 does not hold of the program. Discovery never reads the status of the
  manifest response (the POST of a stub calls \<^verbatim>\<open>raise_for_status\<close>, the GET does
  not): a response with status 500 whose body decodes to \<^verbatim>\<open>{"tools": []}\<close>, or
  to an object without the key \<^verbatim>\<open>tools\<close> such as
  \<^verbatim>\<open>{"error": "Internal Server Error"}\<close>, is taken for an empty manifest. The empty
  list is returned and no warning is logged.
\<close>

theorem http_error_is_not_logged:
  "returned (build_sse_tools sample_lib (server (manifest 500 []) (answer 200 ''ok''))
       ''https://mcp.monday.com/sse'' ''monday'' None) = Inr []
   \<and> warnings (build_sse_tools sample_lib (server (manifest 500 []) (answer 200 ''ok''))
       ''https://mcp.monday.com/sse'' ''monday'' None) = []
   \<and> returned (build_sse_tools sample_lib
         (server (Responds \<lparr>status_code = 500, resp_text = ''{\"error\": \"Internal Server Error\"}'',
                     resp_json = Some (JObj [(''error'', JStr ''Internal Server Error'')])\<rparr>)
                 (answer 200 ''ok''))
         ''https://mcp.monday.com/sse'' ''monday'' None) = Inr []
   \<and> warnings (build_sse_tools sample_lib
         (server (Responds \<lparr>status_code = 500, resp_text = ''{\"error\": \"Internal Server Error\"}'',
                     resp_json = Some (JObj [(''error'', JStr ''Internal Server Error'')])\<rparr>)
                 (answer 200 ''ok''))
         ''https://mcp.monday.com/sse'' ''monday'' None) = []"
  by (simp add: build_sse_tools_def try_body_def server_def manifest_def
      handshake_request_def response_json_def)

subsection \<open>The name a stub sends\<close>

text \<open>
  Every \<^verbatim>\<open>make_call\<close> of a call of \<^verbatim>\<open>build_sse_tools\<close> reads \<^verbatim>\<open>t\<close> from the shared
  cell when it is invoked, and a loop that ends has left the last entry of the
  manifest there: whenever discovery returns stubs, whichever of them is invoked,
  the payload names the last entry.
\<close>

lemma stubs_post_last_entry:
  assumes "net (handshake_request endpoint headers) = Responds resp"
    and "resp_json resp = Some (JObj kvs)"
    and "map_of kvs ''tools'' = Some (JArr entries)"
    and "returned (build_sse_tools lib net endpoint name_prefix headers) = Inr tools"
    and "tools \<noteq> []"
    and "json_loads lib input_json = Some args"
  shows "\<exists>n. subscript (last entries) ''name'' = Inr n \<and>
           snd (invoke lib net' (closure (build_sse_tools lib net endpoint name_prefix headers)) tool input_json)
             = [\<lparr>meth = POST, url = endpoint @ ''/call'', req_headers = headers_or_empty headers,
                 json_payload = Some (JObj [(''tool'', n), (''arguments'', args)]), timeout = 15\<rparr>]"
proof -
  let ?cs = "\<lparr>cell_endpoint = endpoint, cell_headers = headers_or_empty headers, cell_t = None\<rparr>"
  let ?b = "build_sse_tools lib net endpoint name_prefix headers"
  have tb: "try_body lib net endpoint name_prefix headers = tools_loop lib name_prefix ?cs [] [] entries"
    using assms(1-3) by (rule try_body_manifest)
  obtain r calls where rc: "tools_loop lib name_prefix ?cs [] [] entries = (r, calls)"
    by (cases "tools_loop lib name_prefix ?cs [] [] entries")
  obtain cs' where r: "r = Inr (tools, cs')"
    using assms(4,5) unfolding returned_cases tb rc by (cases r) (auto split: if_splits)
  note loop = rc [unfolded r]
  from tools_loop_result [OF loop] have len: "length tools = length entries"
    and nth: "\<forall>j < length entries. tool_arguments lib name_prefix (entries ! j) = Inr (tools ! j)"
    and ce: "cell_endpoint cs' = endpoint" and ch: "cell_headers cs' = headers_or_empty headers"
    and ct: "cell_t cs' = (if entries = [] then None else Some (last entries))"
    by simp_all
  from len assms(5) have ne: "entries \<noteq> []" by auto
  have cl: "closure ?b = cs'" by (simp add: closure_cases tb loop)
  from ne nth have "tool_arguments lib name_prefix (last entries) = Inr (tools ! (length entries - 1))"
    by (simp add: last_conv_nth)
  then obtain n where n: "subscript (last entries) ''name'' = Inr n"
    by (auto simp: tool_arguments_def split: sum.splits)
  have "snd (make_call lib net' cs' input_json) = [call_request cs' n args]"
    using make_call_valid [of cs' "last entries" n lib input_json args net'] ct ne n assms(6) by simp
  with n ce ch cl show ?thesis by (auto simp: invoke_def call_request_def)
qed

section \<open>Properties of the chat loop\<close>


lemma run_terminated: "is_terminated (state c) \<Longrightarrow> run lib rt c = c"
  by (subst run.simps) simp

lemma run_step: "\<not> is_terminated (state c) \<Longrightarrow> run lib rt c = run lib rt (step lib rt c)"
  by (subst run.simps) simp

lemma step_awaiting_line:
  "state c = AWAITING_INPUT \<Longrightarrow> stdin c = user # rest \<Longrightarrow>
     step lib rt c =
       c\<lparr>state := (if is_quit user then TERMINATED Quit else PROCESSING user),
         stdin := rest, stdout := stdout c @ [Prompt ''> '']\<rparr>"
  by (simp add: step_def)

lemma step_processing:
  "state c = PROCESSING user \<Longrightarrow> rt (session c) user = (tr, s') \<Longrightarrow>
     step lib rt c =
       (case raised tr of
          None \<Rightarrow>
            c\<lparr>state := AWAITING_INPUT, session := s',
              stdout := stdout c @ [Print (printed_reply (events tr))],
              forwarded := forwarded c @ [user]\<rparr>
        | Some e \<Rightarrow>
            if is_Exception e
            then c\<lparr>state := AWAITING_INPUT, session := s',
                   stdout := stdout c @
                     [Print (''Error: '' @ str_exc lib e),
                      Print ''Please make sure your GOOGLE_API_KEY is set and the MCP endpoints are accessible.''],
                   forwarded := forwarded c @ [user]\<rparr>
            else c\<lparr>state := TERMINATED (Uncaught e), session := s',
                   forwarded := forwarded c @ [user]\<rparr>)"
  by (simp add: step_def)


lemma quit_examples:
  "lower (strip ''  QUIT '') = ''quit''" "lower (strip ''Exit'') = ''exit''"
  "lower (strip ''list my boards'') = ''list my boards''" "lower (strip ''quit now'') = ''quit now''"
  "lower (strip ''quit'') = ''quit''"
  by code_simp+


text \<open>
  Claim C3, amended. A turn that succeeds, or that raises an error of class
  \<^verbatim>\<open>Exception\<close>, returns the loop to \<^verbatim>\<open>AWAITING_INPUT\<close> with the input left as
  it was; a failed turn prints the diagnostic and a successful one the reply.
  The loop reaches \<^verbatim>\<open>TERMINATED\<close> in three ways only: the line read is the
  quit or exit command, the input is exhausted (\<^verbatim>\<open>input\<close> raises outside the
  \<^verbatim>\<open>try\<close>), or a turn raises an interrupt outside class \<^verbatim>\<open>Exception\<close>. On a line
  of input, the first is the only one.
\<close>

theorem processing_returns_to_awaiting_input:
  "(state c = PROCESSING user \<and> rt (session c) user = (tr, s')
        \<and> (\<forall>e. raised tr = Some e \<longrightarrow> is_Exception e) \<longrightarrow>
       state (step lib rt c) = AWAITING_INPUT \<and> stdin (step lib rt c) = stdin c
       \<and> stdout (step lib rt c) = stdout c @
            (case raised tr of
               None \<Rightarrow> [Print (printed_reply (events tr))]
             | Some e \<Rightarrow>
                 [Print (''Error: '' @ str_exc lib e),
                  Print ''Please make sure your GOOGLE_API_KEY is set and the MCP endpoints are accessible.'']))
   \<and> (\<not> is_terminated (state c) \<longrightarrow>
        (is_terminated (state (step lib rt c)) \<longleftrightarrow>
           (state c = AWAITING_INPUT \<and> (case stdin c of [] \<Rightarrow> True | line # rest \<Rightarrow> is_quit line))
         \<or> (\<exists>line e. state c = PROCESSING line \<and> raised (fst (rt (session c) line)) = Some e
                \<and> \<not> is_Exception e)))
   \<and> (state c = AWAITING_INPUT \<and> stdin c = line # rest \<longrightarrow>
        (is_terminated (state (step lib rt c)) \<longleftrightarrow> is_quit line)
        \<and> (is_quit line \<longrightarrow> state (step lib rt c) = TERMINATED Quit))"
proof (intro conjI impI)
  assume a: "state c = PROCESSING user \<and> rt (session c) user = (tr, s')
        \<and> (\<forall>e. raised tr = Some e \<longrightarrow> is_Exception e)"
  then have s: "step lib rt c =
       (case raised tr of
          None \<Rightarrow>
            c\<lparr>state := AWAITING_INPUT, session := s',
              stdout := stdout c @ [Print (printed_reply (events tr))],
              forwarded := forwarded c @ [user]\<rparr>
        | Some e \<Rightarrow>
            if is_Exception e
            then c\<lparr>state := AWAITING_INPUT, session := s',
                   stdout := stdout c @
                     [Print (''Error: '' @ str_exc lib e),
                      Print ''Please make sure your GOOGLE_API_KEY is set and the MCP endpoints are accessible.''],
                   forwarded := forwarded c @ [user]\<rparr>
            else c\<lparr>state := TERMINATED (Uncaught e), session := s',
                   forwarded := forwarded c @ [user]\<rparr>)"
    by (simp add: step_processing)
  from a show "state (step lib rt c) = AWAITING_INPUT" unfolding s by (auto split: option.splits)
  from a show "stdin (step lib rt c) = stdin c" unfolding s by (auto split: option.splits)
  from a show "stdout (step lib rt c) = stdout c @
            (case raised tr of
               None \<Rightarrow> [Print (printed_reply (events tr))]
             | Some e \<Rightarrow>
                 [Print (''Error: '' @ str_exc lib e),
                  Print ''Please make sure your GOOGLE_API_KEY is set and the MCP endpoints are accessible.''])"
    unfolding s by (auto split: option.splits)
next
  assume "\<not> is_terminated (state c)"
  then show "is_terminated (state (step lib rt c)) \<longleftrightarrow>
           (state c = AWAITING_INPUT \<and> (case stdin c of [] \<Rightarrow> True | line # rest \<Rightarrow> is_quit line))
         \<or> (\<exists>line e. state c = PROCESSING line \<and> raised (fst (rt (session c) line)) = Some e
                \<and> \<not> is_Exception e)"
    by (cases "state c")
      (auto simp: step_def split: list.splits prod.splits option.splits)
next
  assume "state c = AWAITING_INPUT \<and> stdin c = line # rest"
  then show "is_terminated (state (step lib rt c)) \<longleftrightarrow> is_quit line"
    by (simp add: step_awaiting_line)
next
  assume "state c = AWAITING_INPUT \<and> stdin c = line # rest" and "is_quit line"
  then show "state (step lib rt c) = TERMINATED Quit"
    by (simp add: step_awaiting_line)
qed

text \<open>The scenario of the specification: the user types \<^verbatim>\<open>list my boards\<close>, the
  runtime invokes a stub, the remote call answers 500; then the user quits.\<close>

lemma chat_loop_failed_turn:
  "chat_loop sample_lib
       (tool_runtime sample_lib (server (manifest 200 [entry ''list_boards'']) (answer 500 ''oops''))
          \<lparr>cell_endpoint = ''https://mcp.monday.com/sse'', cell_headers = [], cell_t = Some (entry ''list_boards'')\<rparr>)
       0 [''list my boards'', ''quit'']
     = \<lparr>state = TERMINATED Quit, stdin = [], session = 1,
        stdout = [Prompt ''> '', Print ''Error: HTTP error'',
                  Print ''Please make sure your GOOGLE_API_KEY is set and the MCP endpoints are accessible.'',
                  Prompt ''> ''],
        forwarded = [''list my boards'']\<rparr>"
  by (simp add: chat_loop_def run_step run_terminated step_def is_quit_def quit_examples
      tool_runtime_def make_call_def entry_def sample_lib_def server_def answer_def
      call_request_def raise_for_status_def)

theorem processing_returns_to_awaiting_input_witness:
  "state (step sample_lib
       (tool_runtime sample_lib (server (manifest 200 [entry ''list_boards'']) (answer 500 ''oops''))
          \<lparr>cell_endpoint = ''https://mcp.monday.com/sse'', cell_headers = [], cell_t = Some (entry ''list_boards'')\<rparr>)
       \<lparr>state = PROCESSING ''list my boards'', stdin = [''quit''], session = 0,
        stdout = [Prompt ''> ''], forwarded = []\<rparr>)
     = AWAITING_INPUT
   \<and> stdout (step sample_lib
       (tool_runtime sample_lib (server (manifest 200 [entry ''list_boards'']) (answer 500 ''oops''))
          \<lparr>cell_endpoint = ''https://mcp.monday.com/sse'', cell_headers = [], cell_t = Some (entry ''list_boards'')\<rparr>)
       \<lparr>state = PROCESSING ''list my boards'', stdin = [''quit''], session = 0,
        stdout = [Prompt ''> ''], forwarded = []\<rparr>)
     = [Prompt ''> '', Print ''Error: HTTP error'',
        Print ''Please make sure your GOOGLE_API_KEY is set and the MCP endpoints are accessible.'']
   \<and> state (chat_loop sample_lib
       (tool_runtime sample_lib (server (manifest 200 [entry ''list_boards'']) (answer 500 ''oops''))
          \<lparr>cell_endpoint = ''https://mcp.monday.com/sse'', cell_headers = [], cell_t = Some (entry ''list_boards'')\<rparr>)
       0 [''list my boards'', ''quit''])
     = TERMINATED Quit"
proof -
  let ?rt = "tool_runtime sample_lib (server (manifest 200 [entry ''list_boards'']) (answer 500 ''oops''))
          \<lparr>cell_endpoint = ''https://mcp.monday.com/sse'', cell_headers = [], cell_t = Some (entry ''list_boards'')\<rparr>"
  let ?c = "\<lparr>state = PROCESSING ''list my boards'', stdin = [''quit''], session = 0::nat,
        stdout = [Prompt ''> ''], forwarded = []\<rparr>"
  let ?tr = "\<lparr>events = [], raised = Some (HTTPError 500)\<rparr>"
  have r: "?rt (session ?c) ''list my boards'' = (?tr, 1)"
    by (simp add: tool_runtime_def make_call_def entry_def sample_lib_def server_def answer_def
        call_request_def raise_for_status_def)
  have e: "\<forall>e. raised ?tr = Some e \<longrightarrow> is_Exception e" by simp
  have s: "state ?c = PROCESSING ''list my boards''" by simp
  from processing_returns_to_awaiting_input [of ?c "''list my boards''" ?rt ?tr 1 sample_lib] s r e
  have "state (step sample_lib ?rt ?c) = AWAITING_INPUT
      \<and> stdout (step sample_lib ?rt ?c) = stdout ?c @
            (case raised ?tr of
               None \<Rightarrow> [Print (printed_reply (events ?tr))]
             | Some e \<Rightarrow>
                 [Print (''Error: '' @ str_exc sample_lib e),
                  Print ''Please make sure your GOOGLE_API_KEY is set and the MCP endpoints are accessible.''])"
    by blast
  then have a: "state (step sample_lib ?rt ?c) = AWAITING_INPUT
      \<and> stdout (step sample_lib ?rt ?c) = [Prompt ''> '', Print ''Error: HTTP error'',
        Print ''Please make sure your GOOGLE_API_KEY is set and the MCP endpoints are accessible.'']"
    by (simp add: sample_lib_def)
  have "state (chat_loop sample_lib ?rt 0 [''list my boards'', ''quit'']) = TERMINATED Quit"
    by (simp add: chat_loop_failed_turn)
  with a show ?thesis by simp
qed

text \<open>
  The claim as written fails: the session whose only line is \<^verbatim>\<open>hello\<close> ends
  with \<^verbatim>\<open>EOFError\<close> though no line was the quit or exit command, and a turn
  that raises \<^verbatim>\<open>KeyboardInterrupt\<close> goes from \<^verbatim>\<open>PROCESSING\<close> to \<^verbatim>\<open>TERMINATED\<close>.
\<close>

theorem end_of_input_counterexample:
  "state (chat_loop sample_lib
       (fixed_runtime [\<lparr>content = Some (PyStr ''hi''), text_attr = None\<rparr>] None) 0 [''hello''])
     = TERMINATED (Uncaught EOFError)
   \<and> \<not> is_quit ''hello''
   \<and> state (step sample_lib (fixed_runtime [] (Some (Interrupt ''KeyboardInterrupt'')))
       \<lparr>state = PROCESSING ''hello'', stdin = [''quit''], session = 0,
        stdout = [Prompt ''> ''], forwarded = []\<rparr>)
     = TERMINATED (Uncaught (Interrupt ''KeyboardInterrupt''))"
proof -
  have q: "\<not> is_quit ''hello''"
    unfolding is_quit_def by code_simp
  have a: "state (chat_loop sample_lib
       (fixed_runtime [\<lparr>content = Some (PyStr ''hi''), text_attr = None\<rparr>] None) 0 [''hello''])
     = TERMINATED (Uncaught EOFError)"
    using q by (simp add: chat_loop_def run_step run_terminated step_def fixed_runtime_def)
  have b: "state (step sample_lib (fixed_runtime [] (Some (Interrupt ''KeyboardInterrupt'')))
       \<lparr>state = PROCESSING ''hello'', stdin = [''quit''], session = 0,
        stdout = [Prompt ''> ''], forwarded = []\<rparr>)
     = TERMINATED (Uncaught (Interrupt ''KeyboardInterrupt''))"
    by (simp add: step_def fixed_runtime_def)
  from a q b show ?thesis by simp
qed

subsection \<open>The reply of a turn\<close>

text \<open>An event without truthy content that has a \<^verbatim>\<open>text\<close> attribute replaces
  \<^verbatim>\<open>final_response\<close> by that attribute, whatever it holds.\<close>

lemma text_attribute_overwrites:
  assumes "\<not> (case content ev of None \<Rightarrow> False | Some c \<Rightarrow> truthy c)" and "text_attr ev = Some t"
  shows "final_response_of (evs @ [ev]) = t"
  using assms by (simp add: final_response_of_def keep_response_def)

text \<open>
  Claim C5 does not hold of the program. The stream yields an event with the
  content \<^verbatim>\<open>Hello\<close> and then an event whose \<^verbatim>\<open>text\<close> is empty: the turn prints
  the placeholder, though non-empty text was observed. Without the second event
  it prints \<^verbatim>\<open>Hello\<close>.
\<close>

theorem empty_text_event_erases_reply:
  "printed_reply [\<lparr>content = Some (PyStr ''Hello''), text_attr = None\<rparr>,
                  \<lparr>content = None, text_attr = Some (PyStr [])\<rparr>]
     = ''No response received.''
   \<and> printed_reply [\<lparr>content = Some (PyStr ''Hello''), text_attr = None\<rparr>] = ''Hello''"
  by (simp add: printed_reply_def final_response_of_def keep_response_def)

end
